theory Spec2Isabelle
  imports Main "HOL-Library.Word"
begin

section \<open>JavaScript strings\<close>

text \<open>
  A JavaScript string is a sequence of 16-bit code units; \<open>length\<close>, \<open>lastIndexOf\<close>,
  \<open>substring\<close> and \<open>trim\<close> all count code units. String literals of the source that are
  plain ASCII are written through \<open>ascii\<close>.
\<close>

type_synonym code_unit = "16 word"
type_synonym js_string = "code_unit list"

definition ascii :: "string \<Rightarrow> js_string" where
  "ascii cs = map (\<lambda>c. of_nat (of_char c)) cs"

definition newline :: code_unit where
  "newline = 10"

text \<open>
  \<open>String.prototype.lastIndexOf(searchString, position)\<close> for a search string of one code
  unit: the position is clamped between 0 and \<open>len - 1\<close>, the string is scanned downwards
  from there, and the result is -1 when nothing is found (or the string is empty).
\<close>

fun lastIndexFrom :: "js_string \<Rightarrow> code_unit \<Rightarrow> nat \<Rightarrow> int" where
  "lastIndexFrom s c 0 = (if s ! 0 = c then 0 else - 1)"
| "lastIndexFrom s c (Suc k) = (if s ! Suc k = c then int (Suc k) else lastIndexFrom s c k)"

definition lastIndexOf :: "js_string \<Rightarrow> code_unit \<Rightarrow> int \<Rightarrow> int" where
  "lastIndexOf s c position =
     (let len = int (length s) in
      if len < 1 then - 1
      else lastIndexFrom s c (nat (min (max position 0) (len - 1))))"

text \<open>\<open>String.prototype.substring(start)\<close>: the start is clamped between 0 and the length.\<close>

definition substring :: "js_string \<Rightarrow> int \<Rightarrow> js_string" where
  "substring s start = drop (nat (min (max start 0) (int (length s)))) s"

text \<open>
  The code units that \<open>String.prototype.trim\<close> strips: the WhiteSpace and LineTerminator
  productions of ECMAScript (tab, VT, FF, space, NBSP, BOM, the Unicode space separators,
  LF, CR, LS, PS).
\<close>

definition isWhiteSpace :: "code_unit \<Rightarrow> bool" where
  "isWhiteSpace c \<longleftrightarrow>
     c \<in> {0x0009, 0x000A, 0x000B, 0x000C, 0x000D, 0x0020, 0x00A0, 0x1680,
          0x2000, 0x2001, 0x2002, 0x2003, 0x2004, 0x2005, 0x2006, 0x2007, 0x2008, 0x2009,
          0x200A, 0x2028, 0x2029, 0x202F, 0x205F, 0x3000, 0xFEFF}"

definition trim :: "js_string \<Rightarrow> js_string" where
  "trim s = rev (dropWhile isWhiteSpace (rev (dropWhile isWhiteSpace s)))"

text \<open>
  A value that is a string, \<open>undefined\<close> or \<open>null\<close>: what the \<open>text\<close> field of a decoded
  chunk may hold, and with it the accumulator \<open>lastText\<close>, which is assigned from that field.
\<close>

datatype text_value = Undefined | Null | Text js_string

text \<open>
  The operator \<open>+\<close> with such a value on the left and a string on the right: the left operand
  is converted to a string, \<open>undefined\<close> to "undefined" and \<open>null\<close> to "null", and the two
  strings are concatenated. \<open>orEmpty v\<close> is \<open>v ?? ''\<close>: the empty string for \<open>undefined\<close> and
  for \<open>null\<close>.
\<close>

definition js_plus :: "text_value \<Rightarrow> js_string \<Rightarrow> js_string" where
  "js_plus a b =
     (case a of
        Undefined \<Rightarrow> ascii ''undefined'' @ b
      | Null \<Rightarrow> ascii ''null'' @ b
      | Text s \<Rightarrow> s @ b)"

definition orEmpty :: "text_value \<Rightarrow> js_string" where
  "orEmpty v = (case v of Undefined \<Rightarrow> [] | Null \<Rightarrow> [] | Text t \<Rightarrow> t)"

section \<open>The chunk of a response buffer\<close>

text \<open>
  Lines 233-236 and 370-373 of the view: the text handed to \<open>JSON.parse\<close> by the
  download-progress handler.
\<close>

definition responseChunk :: "js_string \<Rightarrow> js_string" where
  "responseChunk responseText =
     (let lastIndex = lastIndexOf responseText newline (int (length responseText) - 2)
      in if lastIndex \<noteq> - 1 then substring responseText lastIndex else responseText)"

text \<open>
  The specification's wording of the same text: the suffix of the buffer that starts at the
  last newline strictly before the final character, or the whole buffer when there is none.
\<close>

definition lastNewlineDelimited :: "js_string \<Rightarrow> js_string" where
  "lastNewlineDelimited buf =
     (let ps = filter (\<lambda>i. buf ! i = newline) [0..<length buf - 1]
      in if ps = [] then buf else drop (last ps) buf)"

section \<open>Data model\<close>

text \<open>
  Modelled from the spec: the declaration of \<open>Chat.ConversationRequest\<close> is not among the
  sources. It is the optional continuation metadata of a request, the context identifiers
  \<open>conversationId\<close> and \<open>parentMessageId\<close> that the view reads and writes, each of which
  may be absent. The object literal \<open>{}\<close> is the record with both fields absent.
\<close>

record conversation_request =
  conversationId :: "js_string option"
  parentMessageId :: "js_string option"

definition noOptions :: conversation_request where
  "noOptions = \<lparr>conversationId = None, parentMessageId = None\<rparr>"

record request_options =
  ro_prompt :: js_string
  ro_options :: "conversation_request option"

text \<open>
  Modelled from the spec: the declaration of \<open>Chat.Chat\<close> is not among the sources. A
  message record has a timestamp, a text, a role flag (\<open>inversion\<close>, true for the user's
  side), an error flag, a loading flag and optional continuation metadata; the view also
  stores the request that produced the message. \<open>chat_loading\<close> is \<open>None\<close> where the source
  leaves \<open>loading\<close> out of the object (the user's own message); \<open>conversationOptions\<close> is
  \<open>None\<close> for \<open>null\<close>.
\<close>

record chat =
  dateTime :: js_string
  chat_text :: js_string
  inversion :: bool
  chat_error :: bool
  chat_loading :: "bool option"
  conversationOptions :: "conversation_request option"
  requestOptions :: request_options

text \<open>The partial message given to \<open>updateChatSome\<close>: only the fields present are overwritten.\<close>

record chat_patch =
  patch_text :: "js_string option"
  patch_error :: "bool option"
  patch_loading :: "bool option"

text \<open>
  Modelled from the spec: the declaration of \<open>Chat.ConversationResponse\<close> is not among the
  sources. A streamed object carries partial text and the conversation and message
  identifiers; the view reads \<open>text\<close>, \<open>conversationId\<close>, \<open>id\<close> and
  \<open>detail.choices[0].finish_reason\<close>, each possibly absent. \<open>data_text\<close> keeps \<open>undefined\<close>
  (the field is absent) and \<open>null\<close> apart, since the view adds it to a string; the two
  identifiers are \<open>None\<close> when absent. \<open>data_finish_reason\<close> is the
  outcome of reading \<open>data.detail.choices[0].finish_reason\<close>: \<open>NoDetail\<close> when the path
  does not exist (the read throws a TypeError), otherwise the value found, \<open>None\<close> for
  \<open>undefined\<close>.
\<close>

datatype finish_reason = NoDetail | FinishReason "js_string option"

record conversation_response =
  data_text :: text_value
  data_conversationId :: "js_string option"
  data_id :: "js_string option"
  data_finish_reason :: finish_reason

text \<open>
  The value caught by the \<open>catch\<close> blocks: \<open>null\<close> or \<open>undefined\<close> (\<open>NoValue\<close>), or an object
  whose \<open>message\<close> may be absent. \<open>error_message\<close> is the expression \<open>error?.message\<close>.
\<close>

datatype js_error = NoValue | JsError "js_string option"

definition error_message :: "js_error \<Rightarrow> js_string option" where
  "error_message err = (case err of NoValue \<Rightarrow> None | JsError m \<Rightarrow> m)"

text \<open>
  What the view takes from outside: the build-time flag \<open>openLongReply\<close>; \<open>JSON.parse\<close>,
  with \<open>None\<close> when it throws (or yields \<open>null\<close>, on which the first property read throws
  into the same empty \<open>catch\<close> before anything is updated); the clock, as the string that the
  n-th evaluation of \<open>new Date().toLocaleString()\<close> gives; and the localised text
  \<open>t('common.wrong')\<close>.
\<close>

record env =
  openLongReply :: bool
  JSON_parse :: "js_string \<Rightarrow> conversation_response option"
  toLocaleString :: "nat \<Rightarrow> js_string"
  common_wrong :: js_string

text \<open>One call of \<open>fetchChatAPIProcess\<close>: the prompt, the options and the abort signal passed.\<close>

record request =
  req_prompt :: js_string
  req_options :: conversation_request
  req_signal :: nat

datatype dialog = ExportImage | DeleteMessage int | ClearChat

text \<open>
  The state of the view. \<open>dataSources\<close> is the transcript of the chat shown;
  \<open>controllers\<close> is the store of the \<open>AbortController\<close> objects created so far (an object is
  its position, the entry is its \<open>aborted\<close> flag) and \<open>controller\<close> the object held by the
  module-level variable; \<open>requests\<close> lists the calls of the chat API made so far, oldest
  first, and \<open>pending\<close> counts those whose promise has neither resolved nor rejected;
  \<open>dialogs\<close> lists the confirmation dialogs opened; \<open>dates\<close> counts the readings of the clock.
\<close>

record view =
  dataSources :: "chat list"
  loading :: bool
  prompt :: js_string
  usingContext :: bool
  controller :: nat
  controllers :: "bool list"
  requests :: "request list"
  pending :: nat
  dialogs :: "dialog list"
  dates :: nat

text \<open>The variables that one send closes over and its callbacks share.\<close>

record closure =
  message :: js_string
  options :: conversation_request
  lastText :: text_value

text \<open>
  How an asynchronous action leaves its synchronous part: it returned at a guard, it threw,
  or it started a request with the given closure.
\<close>

datatype outcome = Returned | Threw | Started closure

section \<open>The transcript store\<close>

definition inRange :: "'a list \<Rightarrow> int \<Rightarrow> bool" where
  "inRange xs i \<longleftrightarrow> 0 \<le> i \<and> i < int (length xs)"

text \<open>
  Modelled from the spec: \<open>addChat\<close> of the \<open>useChat\<close> hook is not among the sources. The
  transcript is an ordered list of message records, created on send: the message is appended.
\<close>

definition addChat :: "chat list \<Rightarrow> chat \<Rightarrow> chat list" where
  "addChat xs c = xs @ [c]"

text \<open>
  Modelled from the spec: \<open>updateChat\<close> of the \<open>useChat\<close> hook is not among the sources.
  Messages are addressed by index and mutated on stream: the message at the index is replaced.
  An index outside the transcript leaves the list as it is.
\<close>

definition updateChat :: "chat list \<Rightarrow> int \<Rightarrow> chat \<Rightarrow> chat list" where
  "updateChat xs i c = (if inRange xs i then xs[nat i := c] else xs)"

definition applyPatch :: "chat \<Rightarrow> chat_patch \<Rightarrow> chat" where
  "applyPatch c p =
     c\<lparr>chat_text := (case patch_text p of None \<Rightarrow> chat_text c | Some t \<Rightarrow> t),
       chat_error := (case patch_error p of None \<Rightarrow> chat_error c | Some b \<Rightarrow> b),
       chat_loading := (case patch_loading p of None \<Rightarrow> chat_loading c | Some b \<Rightarrow> Some b)\<rparr>"

text \<open>
  Modelled from the spec: \<open>updateChatSome\<close> of the \<open>useChat\<close> hook is not among the sources.
  The message at the index keeps its fields except those the partial message carries.
\<close>

definition updateChatSome :: "chat list \<Rightarrow> int \<Rightarrow> chat_patch \<Rightarrow> chat list" where
  "updateChatSome xs i p = (if inRange xs i then xs[nat i := applyPatch (xs ! nat i) p] else xs)"

text \<open>
  Modelled from the spec: \<open>getChatByUuidAndIndex\<close> of the \<open>useChat\<close> hook is not among the
  sources. It reads the message at the index, \<open>None\<close> when there is none.
\<close>

definition getChatByUuidAndIndex :: "chat list \<Rightarrow> int \<Rightarrow> chat option" where
  "getChatByUuidAndIndex xs i = (if inRange xs i then Some (xs ! nat i) else None)"

definition loadingFalse :: chat_patch where
  "loadingFalse = \<lparr>patch_text = None, patch_error = None, patch_loading = Some False\<rparr>"

section \<open>The view\<close>

definition newAbortController :: "view \<Rightarrow> view" where
  "newAbortController s =
     s\<lparr>controller := length (controllers s), controllers := controllers s @ [False]\<rparr>"

definition abort :: "view \<Rightarrow> view" where
  "abort s = s\<lparr>controllers := (controllers s)[controller s := True]\<rparr>"

definition now :: "env \<Rightarrow> view \<Rightarrow> js_string \<times> view" where
  "now e s = (toLocaleString e (dates s), s\<lparr>dates := Suc (dates s)\<rparr>)"

definition lastIndex :: "view \<Rightarrow> int" where
  "lastIndex s = int (length (dataSources s)) - 1"

text \<open>The placeholder text of the response being awaited (three code units).\<close>

definition thinking :: js_string where
  "thinking = [0x601D, 0x8003, 0x4E2D]"

definition canceled :: js_string where
  "canceled = ascii ''canceled''"

text \<open>
  The call of \<open>fetchChatAPIProcess\<close> inside \<open>fetchChatAPIOnce\<close>: the current values of the
  closure's \<open>message\<close> and \<open>options\<close> and the signal of the controller held at that moment.
\<close>

definition fetchChatAPIProcess :: "closure \<Rightarrow> view \<Rightarrow> view" where
  "fetchChatAPIProcess c s =
     s\<lparr>requests := requests s @
          [\<lparr>req_prompt = message c, req_options = options c, req_signal = controller s\<rparr>],
       pending := Suc (pending s)\<rparr>"

text \<open>Lines 171-215: what \<open>onConversation\<close> does between its guards and its \<open>try\<close> block.\<close>

definition conversationList :: "chat list \<Rightarrow> chat list" where
  "conversationList xs = filter (\<lambda>item. \<not> inversion item \<and> conversationOptions item \<noteq> None) xs"

definition onConversation_setup :: "env \<Rightarrow> view \<Rightarrow> closure \<times> view" where
  "onConversation_setup e s =
     (let msg = prompt s;
          s1 = newAbortController s;
          (d1, s2) = now e s1;
          s3 = s2\<lparr>dataSources := addChat (dataSources s2)
                 \<lparr>dateTime = d1, chat_text = msg, inversion = True, chat_error = False,
                  chat_loading = None, conversationOptions = None,
                  requestOptions = \<lparr>ro_prompt = msg, ro_options = None\<rparr>\<rparr>\<rparr>;
          s4 = s3\<lparr>loading := True, prompt := []\<rparr>;
          lastContext = (if conversationList (dataSources s4) = [] then None
                         else conversationOptions (last (conversationList (dataSources s4))));
          opts = (case lastContext of
                    Some ctx \<Rightarrow> if usingContext s4 then ctx else noOptions
                  | None \<Rightarrow> noOptions);
          (d2, s5) = now e s4;
          s6 = s5\<lparr>dataSources := addChat (dataSources s5)
                 \<lparr>dateTime = d2, chat_text = thinking, inversion = False, chat_error = False,
                  chat_loading = Some True, conversationOptions = None,
                  requestOptions = \<lparr>ro_prompt = msg, ro_options = Some opts\<rparr>\<rparr>\<rparr>
      in (\<lparr>message = msg, options = opts, lastText = Text []\<rparr>, s6))"

definition onConversation :: "env \<Rightarrow> view \<Rightarrow> outcome \<times> view" where
  "onConversation e s =
     (if loading s then (Returned, s)
      else if prompt s = [] \<or> trim (prompt s) = [] then (Returned, s)
      else let (c, s') = onConversation_setup e s
           in (Started c, fetchChatAPIProcess c s'))"

definition handleSubmit :: "env \<Rightarrow> view \<Rightarrow> outcome \<times> view" where
  "handleSubmit e s = onConversation e s"

text \<open>
  The download-progress handler, lines 229-269 and 366-400. The two copies differ in the
  index they update, \<open>dataSources.value.length - 1\<close> or \<open>index\<close>, read when the callback
  runs. \<open>mergeChunk\<close> is the body of the inner \<open>try\<close> after a successful \<open>JSON.parse\<close>. The
  handler returns the closure as it leaves it.
\<close>

definition streamedChat :: "closure \<Rightarrow> conversation_response \<Rightarrow> js_string \<Rightarrow> chat" where
  "streamedChat c data d =
     \<lparr>dateTime = d,
      chat_text = js_plus (lastText c) (orEmpty (data_text data)),
      inversion = False, chat_error = False, chat_loading = Some True,
      conversationOptions =
        Some \<lparr>conversationId = data_conversationId data, parentMessageId = data_id data\<rparr>,
      requestOptions = \<lparr>ro_prompt = message c, ro_options = Some (options c)\<rparr>\<rparr>"

definition mergeChunk ::
  "env \<Rightarrow> (view \<Rightarrow> int) \<Rightarrow> closure \<Rightarrow> conversation_response \<Rightarrow> view \<Rightarrow> closure \<times> view" where
  "mergeChunk e index c data s =
     (let i = index s;
          (d, s1) = now e s;
          s2 = s1\<lparr>dataSources := updateChat (dataSources s1) i (streamedChat c data d)\<rparr>
      in if openLongReply e \<and> data_finish_reason data = FinishReason (Some (ascii ''length''))
         then let c' = c\<lparr>options := (options c)\<lparr>parentMessageId := data_id data\<rparr>,
                         lastText := data_text data, message := []\<rparr>
              in (c', fetchChatAPIProcess c' s2)
         else (c, s2))"

definition onDownloadProgress ::
  "env \<Rightarrow> (view \<Rightarrow> int) \<Rightarrow> closure \<Rightarrow> js_string \<Rightarrow> view \<Rightarrow> closure \<times> view" where
  "onDownloadProgress e index c responseText s =
     (case JSON_parse e (responseChunk responseText) of
        None \<Rightarrow> (c, s)
      | Some data \<Rightarrow> mergeChunk e index c data s)"

definition onConversation_onDownloadProgress ::
  "env \<Rightarrow> closure \<Rightarrow> js_string \<Rightarrow> view \<Rightarrow> closure \<times> view" where
  "onConversation_onDownloadProgress e = onDownloadProgress e lastIndex"

definition onRegenerate_onDownloadProgress ::
  "env \<Rightarrow> int \<Rightarrow> closure \<Rightarrow> js_string \<Rightarrow> view \<Rightarrow> closure \<times> view" where
  "onRegenerate_onDownloadProgress e index = onDownloadProgress e (\<lambda>s. index)"

text \<open>
  Lines 272 and 402: the statement after the \<open>await\<close> in \<open>fetchChatAPIOnce\<close>, run when the
  call's promise resolves. The \<open>finally\<close> blocks (lines 323-325, 434-436) clear the flag.
\<close>

definition fetchChatAPIOnce_resolved :: "int \<Rightarrow> view \<Rightarrow> view" where
  "fetchChatAPIOnce_resolved i s =
     s\<lparr>dataSources := updateChatSome (dataSources s) i loadingFalse, pending := pending s - 1\<rparr>"

definition finally_block :: "view \<Rightarrow> view" where
  "finally_block s = s\<lparr>loading := False\<rparr>"

definition onConversation_resolved :: "view \<Rightarrow> view" where
  "onConversation_resolved s = finally_block (fetchChatAPIOnce_resolved (lastIndex s) s)"

definition onRegenerate_resolved :: "int \<Rightarrow> view \<Rightarrow> view" where
  "onRegenerate_resolved index s = finally_block (fetchChatAPIOnce_resolved index s)"

text \<open>
  Lines 278-325: the \<open>catch\<close> and \<open>finally\<close> blocks of \<open>onConversation\<close>, run when the call
  awaited at line 276 rejects with \<open>err\<close>. Line 279 reads \<open>error?.message\<close>, line 281 reads
  \<open>error.message\<close>: on \<open>null\<close> or \<open>undefined\<close> the second read throws inside the \<open>catch\<close>
  block, the rest of the block is skipped and only the \<open>finally\<close> block runs.
\<close>

definition errorChat :: "closure \<Rightarrow> js_string \<Rightarrow> js_string \<Rightarrow> chat" where
  "errorChat c errorMessage d =
     \<lparr>dateTime = d, chat_text = errorMessage, inversion = False, chat_error = True,
      chat_loading = Some False, conversationOptions = None,
      requestOptions = \<lparr>ro_prompt = message c, ro_options = Some (options c)\<rparr>\<rparr>"

definition replaceByError :: "env \<Rightarrow> closure \<Rightarrow> js_string \<Rightarrow> int \<Rightarrow> view \<Rightarrow> view" where
  "replaceByError e c errorMessage i s =
     (let (d, s1) = now e s
      in s1\<lparr>dataSources := updateChat (dataSources s1) i (errorChat c errorMessage d)\<rparr>)"

definition onConversation_catch :: "env \<Rightarrow> closure \<Rightarrow> js_error \<Rightarrow> view \<Rightarrow> view" where
  "onConversation_catch e c err s0 =
     (let s = s0\<lparr>pending := pending s0 - 1\<rparr>;
          errorMessage = (case error_message err of None \<Rightarrow> common_wrong e | Some m \<Rightarrow> m)
      in finally_block
          (if err = NoValue then s
           else if error_message err = Some canceled
           then s\<lparr>dataSources := updateChatSome (dataSources s) (lastIndex s) loadingFalse\<rparr>
           else case getChatByUuidAndIndex (dataSources s) (lastIndex s) of
                  None \<Rightarrow> replaceByError e c errorMessage (lastIndex s) s
                | Some currentChat \<Rightarrow>
                    if chat_text currentChat \<noteq> []
                    then s\<lparr>dataSources := updateChatSome (dataSources s) (lastIndex s)
                            \<lparr>patch_text = Some (chat_text currentChat @ [newline] @ ascii ''[''
                                                  @ errorMessage @ ascii '']''),
                             patch_error = Some False, patch_loading = Some False\<rparr>\<rparr>
                    else replaceByError e c errorMessage (lastIndex s) s))"

text \<open>Lines 328-357: \<open>onRegenerate\<close> up to its \<open>try\<close> block, and its call of the API.\<close>

definition onRegenerate :: "env \<Rightarrow> int \<Rightarrow> view \<Rightarrow> outcome \<times> view" where
  "onRegenerate e index s =
     (if loading s then (Returned, s)
      else let s1 = newAbortController s
           in case getChatByUuidAndIndex (dataSources s1) index of
                None \<Rightarrow> (Threw, s1)
              | Some item \<Rightarrow>
                  let msg = ro_prompt (requestOptions item);
                      opts = (case ro_options (requestOptions item) of
                                None \<Rightarrow> noOptions | Some ro \<Rightarrow> ro);
                      s2 = s1\<lparr>loading := True\<rparr>;
                      (d, s3) = now e s2;
                      s4 = s3\<lparr>dataSources := updateChat (dataSources s3) index
                             \<lparr>dateTime = d, chat_text = [], inversion = False,
                              chat_error = False, chat_loading = Some True,
                              conversationOptions = None,
                              requestOptions = \<lparr>ro_prompt = msg, ro_options = Some opts\<rparr>\<rparr>\<rparr>;
                      c = \<lparr>message = msg, options = opts, lastText = Text []\<rparr>
                  in (Started c, fetchChatAPIProcess c s4))"

text \<open>
  Lines 406-436: the \<open>catch\<close> and \<open>finally\<close> blocks of \<open>onRegenerate\<close>. Line 407 reads
  \<open>error.message\<close> first, which throws on \<open>null\<close> or \<open>undefined\<close>.
\<close>

definition onRegenerate_catch :: "env \<Rightarrow> int \<Rightarrow> closure \<Rightarrow> js_error \<Rightarrow> view \<Rightarrow> view" where
  "onRegenerate_catch e index c err s0 =
     (let s = s0\<lparr>pending := pending s0 - 1\<rparr>
      in finally_block
          (if err = NoValue then s
           else if error_message err = Some canceled
           then s\<lparr>dataSources := updateChatSome (dataSources s) index loadingFalse\<rparr>
           else let errorMessage = (case error_message err of
                                      None \<Rightarrow> common_wrong e | Some m \<Rightarrow> m)
                in replaceByError e c errorMessage index s))"

text \<open>
  What the view does when a call of the API rejects. The \<open>await\<close> inside \<open>fetchChatAPIOnce\<close>
  rethrows, so line 272 (402) is skipped and the promise of \<open>fetchChatAPIOnce\<close> rejects.
  \<open>fetchChatAPIOnce\<close> is called from two places: at line 276 (404) its promise is awaited
  inside the \<open>try\<close> block, so the \<open>catch\<close> and \<open>finally\<close> blocks run; at line 260 (394) the
  progress handler, which is not an \<open>async\<close> function, returns the promise to the caller of
  the callback, its own \<open>try\<close> has already been left, and no statement of the view runs.
\<close>

datatype call_site = Awaited | FromProgress

definition onConversation_rejected ::
  "env \<Rightarrow> call_site \<Rightarrow> closure \<Rightarrow> js_error \<Rightarrow> view \<Rightarrow> view" where
  "onConversation_rejected e site c err s =
     (case site of
        Awaited \<Rightarrow> onConversation_catch e c err s
      | FromProgress \<Rightarrow> s\<lparr>pending := pending s - 1\<rparr>)"

definition onRegenerate_rejected ::
  "env \<Rightarrow> call_site \<Rightarrow> int \<Rightarrow> closure \<Rightarrow> js_error \<Rightarrow> view \<Rightarrow> view" where
  "onRegenerate_rejected e site index c err s =
     (case site of
        Awaited \<Rightarrow> onRegenerate_catch e index c err s
      | FromProgress \<Rightarrow> s\<lparr>pending := pending s - 1\<rparr>)"




definition handleStop :: "view \<Rightarrow> view" where
  "handleStop s = (if loading s then (abort s)\<lparr>loading := False\<rparr> else s)"

definition onUnmounted :: "view \<Rightarrow> view" where
  "onUnmounted s = (if loading s then abort s else s)"

definition buttonDisabled :: "view \<Rightarrow> bool" where
  "buttonDisabled s \<longleftrightarrow> loading s \<or> prompt s = [] \<or> trim (prompt s) = []"

section \<open>A concrete run\<close>

text \<open>
  A view with an empty transcript and the prompt "hello"; a server whose response buffer ends
  in a line that decodes to a chunk with text "Hi" and finish reason "length"; the states
  reached by sending, streaming, completing and regenerating; \<open>demo_continued\<close> is the
  closure and the view after the first progress event when the long-reply feature is on.
\<close>

definition demo_data :: conversation_response where
  "demo_data = \<lparr>data_text = Text (ascii ''Hi''), data_conversationId = Some (ascii ''c1''),
                 data_id = Some (ascii ''m1''),
                 data_finish_reason = FinishReason (Some (ascii ''length''))\<rparr>"

definition demo_buf :: js_string where
  "demo_buf = ascii ''{a}'' @ [newline] @ ascii ''{b}''"

definition demo_env :: env where
  "demo_env = \<lparr>openLongReply = True,
                JSON_parse = (\<lambda>s. if s = newline # ascii ''{b}'' then Some demo_data else None),
                toLocaleString = (\<lambda>n. ascii ''now''),
                common_wrong = ascii ''wrong''\<rparr>"

definition demo_env_short :: env where
  "demo_env_short = demo_env\<lparr>openLongReply := False\<rparr>"

definition demo_view :: view where
  "demo_view = \<lparr>dataSources = [], loading = False, prompt = ascii ''hello'',
                 usingContext = True, controller = 0, controllers = [False], requests = [],
                 pending = 0, dialogs = [], dates = 0\<rparr>"

definition demo_closure :: closure where
  "demo_closure = fst (onConversation_setup demo_env demo_view)"

definition demo_streaming :: view where
  "demo_streaming = snd (onConversation demo_env demo_view)"

definition demo_answered :: view where
  "demo_answered =
     (onConversation_resolved
        (snd (onConversation_onDownloadProgress demo_env_short demo_closure demo_buf
                demo_streaming)))\<lparr>prompt := ascii ''more''\<rparr>"

definition demo_failure :: js_error where
  "demo_failure = JsError (Some (ascii ''Network Error''))"

definition demo_cancel :: js_error where
  "demo_cancel = JsError (Some canceled)"

definition demo_idle :: view where
  "demo_idle = onConversation_resolved demo_streaming"

definition demo_regenerating :: view where
  "demo_regenerating = snd (onRegenerate demo_env 1 demo_idle)"

definition demo_continued :: "closure \<times> view" where
  "demo_continued =
     onConversation_onDownloadProgress demo_env demo_closure demo_buf demo_streaming"

definition demo_regenerate_continued :: "closure \<times> view" where
  "demo_regenerate_continued =
     onRegenerate_onDownloadProgress demo_env 1 demo_closure demo_buf demo_regenerating"

definition demo_null_closure :: closure where
  "demo_null_closure = demo_closure\<lparr>lastText := Null\<rparr>"

definition demo_blank :: view where
  "demo_blank = demo_view\<lparr>prompt := [0x0020, 0x0009, 0x3000, 0x000A]\<rparr>"

section \<open>Properties of the string operations\<close>

lemma lastIndexFrom_filter:
  "lastIndexFrom s c k =
     (if filter (\<lambda>i. s ! i = c) [0..<Suc k] = [] then - 1
      else int (last (filter (\<lambda>i. s ! i = c) [0..<Suc k])))"
proof (induction k)
  case 0
  show ?case by simp
next
  case (Suc k)
  have "[0..<Suc (Suc k)] = [0..<Suc k] @ [Suc k]" by simp
  then have split: "filter (\<lambda>i. s ! i = c) [0..<Suc (Suc k)] =
      filter (\<lambda>i. s ! i = c) [0..<Suc k] @ (if s ! Suc k = c then [Suc k] else [])"
    by (simp only: filter_append filter.simps)
  show ?case
    unfolding split using Suc.IH by simp
qed

lemma responseChunk_spec: "responseChunk buf = lastNewlineDelimited buf"
proof -
  consider "length buf = 0" | "length buf = 1" | "2 \<le> length buf" by linarith
  then show ?thesis
  proof cases
    case 1
    then show ?thesis
      by (simp add: responseChunk_def lastNewlineDelimited_def lastIndexOf_def)
  next
    case 2
    then show ?thesis
      by (simp add: responseChunk_def lastNewlineDelimited_def lastIndexOf_def substring_def)
  next
    case 3
    then obtain k where k: "length buf = Suc (Suc k)"
      by (metis Suc_leD add_2_eq_Suc le_Suc_ex)
    have idx: "lastIndexOf buf newline (int (length buf) - 2) = lastIndexFrom buf newline k"
      using k by (simp add: lastIndexOf_def)
    have rng: "[0..<length buf - 1] = [0..<Suc k]"
      using k by simp
    let ?ps = "filter (\<lambda>i. buf ! i = newline) [0..<Suc k]"
    have found: "lastIndexFrom buf newline k = (if ?ps = [] then - 1 else int (last ?ps))"
      by (rule lastIndexFrom_filter)
    show ?thesis
    proof (cases "?ps = []")
      case True
      then show ?thesis
        unfolding responseChunk_def lastNewlineDelimited_def idx rng found
        by (simp del: upt_Suc)
    next
      case False
      then have "last ?ps \<in> set ?ps" by (rule last_in_set)
      then have le: "last ?ps \<le> k" by auto
      have "substring buf (int (last ?ps)) = drop (last ?ps) buf"
        using le k by (simp add: substring_def del: upt_Suc)
      then show ?thesis
        unfolding responseChunk_def lastNewlineDelimited_def idx rng found
        using False by (simp del: upt_Suc)
    qed
  qed
qed

lemma trim_empty_iff: "trim s = [] \<longleftrightarrow> (\<forall>c\<in>set s. isWhiteSpace c)"
proof
  assume "trim s = []"
  then have all: "\<forall>x\<in>set (dropWhile isWhiteSpace s). isWhiteSpace x"
    by (simp add: trim_def)
  have "dropWhile isWhiteSpace s = []"
  proof (rule ccontr)
    assume ne: "dropWhile isWhiteSpace s \<noteq> []"
    then have "\<not> isWhiteSpace (hd (dropWhile isWhiteSpace s))" by (rule hd_dropWhile)
    moreover have "hd (dropWhile isWhiteSpace s) \<in> set (dropWhile isWhiteSpace s)"
      using ne by simp
    ultimately show False using all by blast
  qed
  then show "\<forall>c\<in>set s. isWhiteSpace c" by simp
next
  assume "\<forall>c\<in>set s. isWhiteSpace c"
  then have d: "dropWhile isWhiteSpace s = []" by simp
  show "trim s = []" unfolding trim_def d by simp
qed

section \<open>Properties of the transcript store\<close>

lemma inRange_nat: "inRange xs i \<Longrightarrow> nat i < length xs"
  by (auto simp add: inRange_def)

lemma updateChat_length: "length (updateChat xs i m) = length xs"
  by (simp add: updateChat_def)

lemma updateChat_nth: "inRange xs i \<Longrightarrow> updateChat xs i m ! nat i = m"
  by (simp add: updateChat_def inRange_nat)

lemma updateChat_other: "int j \<noteq> i \<Longrightarrow> updateChat xs i m ! j = xs ! j"
  by (auto simp add: updateChat_def inRange_def)

lemma updateChat_last: "xs \<noteq> [] \<Longrightarrow> last (updateChat xs (int (length xs) - 1) m) = m"
proof -
  assume ne: "xs \<noteq> []"
  then have r: "inRange xs (int (length xs) - 1)"
    by (simp add: inRange_def)
  have n: "nat (int (length xs) - 1) = length xs - 1" by simp
  have "last (updateChat xs (int (length xs) - 1) m) =
          updateChat xs (int (length xs) - 1) m ! (length xs - 1)"
  proof -
    have "updateChat xs (int (length xs) - 1) m \<noteq> []"
      using ne updateChat_length [of xs "int (length xs) - 1" m] by auto
    then show ?thesis by (simp add: last_conv_nth updateChat_length)
  qed
  also have "\<dots> = m" using updateChat_nth [OF r, of m] n by simp
  finally show ?thesis .
qed

lemma updateChatSome_length: "length (updateChatSome xs i p) = length xs"
  by (simp add: updateChatSome_def)

lemma updateChatSome_nth:
  "inRange xs i \<Longrightarrow> updateChatSome xs i p ! nat i = applyPatch (xs ! nat i) p"
  by (simp add: updateChatSome_def inRange_nat)

lemma updateChatSome_other: "int j \<noteq> i \<Longrightarrow> updateChatSome xs i p ! j = xs ! j"
  by (auto simp add: updateChatSome_def inRange_def)

lemma updateChatSome_last:
  "xs \<noteq> [] \<Longrightarrow> last (updateChatSome xs (int (length xs) - 1) p) = applyPatch (last xs) p"
proof -
  assume ne: "xs \<noteq> []"
  then have r: "inRange xs (int (length xs) - 1)"
    by (simp add: inRange_def)
  have n: "nat (int (length xs) - 1) = length xs - 1" by simp
  have "last (updateChatSome xs (int (length xs) - 1) p) =
          updateChatSome xs (int (length xs) - 1) p ! (length xs - 1)"
  proof -
    have "updateChatSome xs (int (length xs) - 1) p \<noteq> []"
      using ne updateChatSome_length [of xs "int (length xs) - 1" p] by auto
    then show ?thesis by (simp add: last_conv_nth updateChatSome_length)
  qed
  also have "\<dots> = applyPatch (xs ! (length xs - 1)) p"
    using updateChatSome_nth [OF r, of p] n by simp
  also have "\<dots> = applyPatch (last xs) p" using ne by (simp add: last_conv_nth)
  finally show ?thesis .
qed

lemma nat_int_pred: "nat (int n - 1) = n - 1"
  by arith

lemma updateChat_butlast: "butlast (updateChat xs (int (length xs) - 1) m) = butlast xs"
  by (simp add: updateChat_def butlast_list_update nat_int_pred)

lemma updateChatSome_butlast: "butlast (updateChatSome xs (int (length xs) - 1) p) = butlast xs"
  by (simp add: updateChatSome_def butlast_list_update nat_int_pred)

lemma nth_last_index: "xs \<noteq> [] \<Longrightarrow> xs ! nat (int (length xs) - 1) = last xs"
  by (simp add: nat_int_pred last_conv_nth)

lemma applyPatch_loadingFalse:
  "applyPatch m loadingFalse = m\<lparr>chat_loading := Some False\<rparr>"
  by (simp add: applyPatch_def loadingFalse_def)

lemma updateChatSome_loadingFalse_text:
  "map chat_text (updateChatSome xs i loadingFalse) = map chat_text xs"
  "map chat_error (updateChatSome xs i loadingFalse) = map chat_error xs"
  by (simp_all add: updateChatSome_def applyPatch_loadingFalse map_update inRange_nat
      list_update_same_conv)

section \<open>Properties of the view\<close>

lemma mergeChunk_dataSources:
  "dataSources (snd (mergeChunk e index c data s)) =
     updateChat (dataSources s) (index s) (streamedChat c data (toLocaleString e (dates s)))"
  by (simp add: mergeChunk_def now_def fetchChatAPIProcess_def Let_def)

lemma mergeChunk_continue:
  assumes "openLongReply e" "data_finish_reason data = FinishReason (Some (ascii ''length''))"
  shows "fst (mergeChunk e index c data s) =
           c\<lparr>options := (options c)\<lparr>parentMessageId := data_id data\<rparr>,
             lastText := data_text data, message := []\<rparr>"
    and "requests (snd (mergeChunk e index c data s)) =
           requests s @ [\<lparr>req_prompt = [], req_options = (options c)\<lparr>parentMessageId := data_id data\<rparr>,
                          req_signal = controller s\<rparr>]"
    and "pending (snd (mergeChunk e index c data s)) = Suc (pending s)"
  using assms by (simp_all add: mergeChunk_def now_def fetchChatAPIProcess_def Let_def)

lemma mergeChunk_stop:
  assumes "\<not> (openLongReply e \<and> data_finish_reason data = FinishReason (Some (ascii ''length'')))"
  shows "fst (mergeChunk e index c data s) = c"
    and "requests (snd (mergeChunk e index c data s)) = requests s"
    and "pending (snd (mergeChunk e index c data s)) = pending s"
  using assms by (auto simp add: mergeChunk_def now_def fetchChatAPIProcess_def Let_def)

lemma mergeChunk_frame:
  "loading (snd (mergeChunk e index c data s)) = loading s"
  "controller (snd (mergeChunk e index c data s)) = controller s"
  "controllers (snd (mergeChunk e index c data s)) = controllers s"
  "prompt (snd (mergeChunk e index c data s)) = prompt s"
  by (simp_all add: mergeChunk_def now_def fetchChatAPIProcess_def Let_def)

lemma onDownloadProgress_decoded:
  "JSON_parse e (responseChunk buf) = Some data \<Longrightarrow>
     onDownloadProgress e index c buf s = mergeChunk e index c data s"
  by (simp add: onDownloadProgress_def)

lemma onDownloadProgress_undecoded:
  "JSON_parse e (responseChunk buf) = None \<Longrightarrow> onDownloadProgress e index c buf s = (c, s)"
  by (simp add: onDownloadProgress_def)

lemma streamedChat_fields:
  "chat_text (streamedChat c data d) =
     (case lastText c of
        Undefined \<Rightarrow> ascii ''undefined'' | Null \<Rightarrow> ascii ''null'' | Text l \<Rightarrow> l) @
     (case data_text data of Undefined \<Rightarrow> [] | Null \<Rightarrow> [] | Text t \<Rightarrow> t)"
  "conversationOptions (streamedChat c data d) =
     Some \<lparr>conversationId = data_conversationId data, parentMessageId = data_id data\<rparr>"
  by (simp_all add: streamedChat_def js_plus_def orEmpty_def split: text_value.splits)

lemma mergeChunk_lastText:
  "lastText (fst (mergeChunk e index c data s)) =
     (if openLongReply e \<and> data_finish_reason data = FinishReason (Some (ascii ''length''))
      then data_text data else lastText c)"
  by (simp add: mergeChunk_def now_def Let_def)

lemma mergeChunk_at_last:
  assumes "dataSources s \<noteq> []"
  shows "last (dataSources (snd (mergeChunk e lastIndex c data s))) =
           streamedChat c data (toLocaleString e (dates s))"
  using assms by (simp add: mergeChunk_dataSources lastIndex_def updateChat_last)

lemma mergeChunk_at_index:
  assumes "inRange (dataSources s) index"
  shows "dataSources (snd (mergeChunk e (\<lambda>s. index) c data s)) ! nat index =
           streamedChat c data (toLocaleString e (dates s))"
  using assms by (simp add: mergeChunk_dataSources updateChat_nth)

lemma mergeChunk_length:
  "length (dataSources (snd (mergeChunk e index c data s))) = length (dataSources s)"
  by (simp add: mergeChunk_dataSources updateChat_length)

lemma conversationList_snoc_inversion:
  "inversion m \<Longrightarrow> conversationList (xs @ [m]) = conversationList xs"
  by (simp add: conversationList_def)

lemma setup_closure:
  "fst (onConversation_setup e s) =
     \<lparr>message = prompt s,
      options = (if usingContext s \<and> conversationList (dataSources s) \<noteq> []
                 then (case conversationOptions (last (conversationList (dataSources s))) of
                         None \<Rightarrow> noOptions | Some ctx \<Rightarrow> ctx)
                 else noOptions),
      lastText = Text []\<rparr>"
  by (simp add: onConversation_setup_def Let_def now_def newAbortController_def addChat_def
      conversationList_snoc_inversion split: option.splits)

lemma setup_dataSources:
  "dataSources (snd (onConversation_setup e s)) =
     dataSources s @
       [\<lparr>dateTime = toLocaleString e (dates s), chat_text = prompt s, inversion = True,
         chat_error = False, chat_loading = None, conversationOptions = None,
         requestOptions = \<lparr>ro_prompt = prompt s, ro_options = None\<rparr>\<rparr>,
        \<lparr>dateTime = toLocaleString e (Suc (dates s)), chat_text = thinking, inversion = False,
         chat_error = False, chat_loading = Some True, conversationOptions = None,
         requestOptions = \<lparr>ro_prompt = prompt s,
                           ro_options = Some (options (fst (onConversation_setup e s)))\<rparr>\<rparr>]"
  by (simp add: onConversation_setup_def Let_def now_def newAbortController_def addChat_def
      split: option.splits)

lemma setup_frame:
  "requests (snd (onConversation_setup e s)) = requests s"
  "pending (snd (onConversation_setup e s)) = pending s"
  "controller (snd (onConversation_setup e s)) = length (controllers s)"
  "controllers (snd (onConversation_setup e s)) = controllers s @ [False]"
  "loading (snd (onConversation_setup e s)) = True"
  "prompt (snd (onConversation_setup e s)) = []"
  "dialogs (snd (onConversation_setup e s)) = dialogs s"
  by (simp_all add: onConversation_setup_def Let_def now_def newAbortController_def addChat_def
      split: option.splits)

lemma onConversation_started:
  assumes "\<not> loading s" "prompt s \<noteq> []" "trim (prompt s) \<noteq> []"
  shows "onConversation e s =
           (Started (fst (onConversation_setup e s)),
            fetchChatAPIProcess (fst (onConversation_setup e s)) (snd (onConversation_setup e s)))"
  using assms by (simp add: onConversation_def split: prod.splits)

lemma fetchChatAPIProcess_fields:
  "requests (fetchChatAPIProcess c s) =
     requests s @ [\<lparr>req_prompt = message c, req_options = options c, req_signal = controller s\<rparr>]"
  "pending (fetchChatAPIProcess c s) = Suc (pending s)"
  "dataSources (fetchChatAPIProcess c s) = dataSources s"
  "controller (fetchChatAPIProcess c s) = controller s"
  "controllers (fetchChatAPIProcess c s) = controllers s"
  "loading (fetchChatAPIProcess c s) = loading s"
  "prompt (fetchChatAPIProcess c s) = prompt s"
  "dialogs (fetchChatAPIProcess c s) = dialogs s"
  by (simp_all add: fetchChatAPIProcess_def)


lemma handleStop_loading:
  "loading s \<Longrightarrow>
     handleStop s = s\<lparr>controllers := (controllers s)[controller s := True], loading := False\<rparr>"
  by (simp add: handleStop_def abort_def)

lemma error_message_NoValue: "error_message NoValue = None"
  by (simp add: error_message_def)

lemma canceled_is_object: "error_message err = Some m \<Longrightarrow> err \<noteq> NoValue"
  by (auto simp add: error_message_def)

lemma onConversation_catch_canceled:
  assumes "error_message err = Some canceled"
  shows "onConversation_catch e c err s =
           s\<lparr>pending := pending s - 1,
             dataSources := updateChatSome (dataSources s) (lastIndex s) loadingFalse,
             loading := False\<rparr>"
  using assms canceled_is_object [OF assms]
  by (simp add: onConversation_catch_def finally_block_def lastIndex_def Let_def)

lemma onRegenerate_catch_canceled:
  assumes "error_message err = Some canceled"
  shows "onRegenerate_catch e index c err s =
           s\<lparr>pending := pending s - 1,
             dataSources := updateChatSome (dataSources s) index loadingFalse,
             loading := False\<rparr>"
  using assms canceled_is_object [OF assms]
  by (simp add: onRegenerate_catch_def finally_block_def Let_def)

lemma replaceByError_fields:
  "dataSources (replaceByError e c msg i s) =
     updateChat (dataSources s) i (errorChat c msg (toLocaleString e (dates s)))"
  "requests (replaceByError e c msg i s) = requests s"
  "loading (replaceByError e c msg i s) = loading s"
  by (simp_all add: replaceByError_def now_def)

lemma onConversation_catch_frame:
  "\<not> loading (onConversation_catch e c err s)"
  "requests (onConversation_catch e c err s) = requests s"
  by (simp_all add: onConversation_catch_def finally_block_def Let_def replaceByError_fields
      split: option.splits)

lemma onConversation_catch_length:
  "length (dataSources (onConversation_catch e c err s)) = length (dataSources s)"
  by (simp add: onConversation_catch_def finally_block_def Let_def replaceByError_fields
      updateChat_length updateChatSome_length split: option.splits)

lemma onConversation_catch_butlast:
  "butlast (dataSources (onConversation_catch e c err s)) = butlast (dataSources s)"
  by (simp add: onConversation_catch_def finally_block_def Let_def replaceByError_fields
      lastIndex_def updateChat_butlast updateChatSome_butlast split: option.splits)

lemma onRegenerate_catch_frame:
  "\<not> loading (onRegenerate_catch e index c err s)"
  "requests (onRegenerate_catch e index c err s) = requests s"
  by (simp_all add: onRegenerate_catch_def finally_block_def Let_def replaceByError_fields)

lemma onConversation_catch_append:
  assumes "error_message err \<noteq> Some canceled" "dataSources s \<noteq> []"
    "chat_text (last (dataSources s)) \<noteq> []" "err \<noteq> NoValue"
  shows "dataSources (onConversation_catch e c err s) =
           updateChatSome (dataSources s) (lastIndex s)
             \<lparr>patch_text = Some (chat_text (last (dataSources s)) @ [newline] @ ascii ''['' @
                  (case error_message err of None \<Rightarrow> common_wrong e | Some m \<Rightarrow> m) @ ascii '']''),
              patch_error = Some False, patch_loading = Some False\<rparr>"
proof -
  have r: "inRange (dataSources s) (lastIndex s)"
    using assms(2) by (simp add: inRange_def lastIndex_def)
  have n: "dataSources s ! nat (lastIndex s) = last (dataSources s)"
    using assms(2) by (simp add: lastIndex_def nth_last_index)
  show ?thesis
    using assms r n
    by (simp add: onConversation_catch_def finally_block_def Let_def getChatByUuidAndIndex_def
        lastIndex_def)
qed

lemma onConversation_catch_replace:
  assumes "error_message err \<noteq> Some canceled" "dataSources s \<noteq> []"
    "chat_text (last (dataSources s)) = []" "err \<noteq> NoValue"
  shows "dataSources (onConversation_catch e c err s) =
           updateChat (dataSources s) (lastIndex s)
             (errorChat c (case error_message err of None \<Rightarrow> common_wrong e | Some m \<Rightarrow> m)
                (toLocaleString e (dates s)))"
proof -
  have r: "inRange (dataSources s) (lastIndex s)"
    using assms(2) by (simp add: inRange_def lastIndex_def)
  have n: "dataSources s ! nat (lastIndex s) = last (dataSources s)"
    using assms(2) by (simp add: lastIndex_def nth_last_index)
  show ?thesis
    using assms r n
    by (simp add: onConversation_catch_def finally_block_def Let_def getChatByUuidAndIndex_def
        lastIndex_def replaceByError_def now_def)
qed

lemma onRegenerate_catch_replace:
  assumes "error_message err \<noteq> Some canceled" "err \<noteq> NoValue"
  shows "dataSources (onRegenerate_catch e index c err s) =
           updateChat (dataSources s) index
             (errorChat c (case error_message err of None \<Rightarrow> common_wrong e | Some m \<Rightarrow> m)
                (toLocaleString e (dates s)))"
  using assms
  by (simp add: onRegenerate_catch_def finally_block_def Let_def replaceByError_def now_def)

section \<open>The claims\<close>

text \<open>
  Claim C1. For every response buffer delivered to the download-progress handler of a send
  (\<open>onConversation\<close>) or of a regenerate (\<open>onRegenerate\<close>), the text given to the JSON
  decoder is the suffix of the buffer that starts at the last newline strictly before the
  buffer's final character, or the whole buffer when there is no such newline; when the
  decoder fails on it, the handler leaves the closure and the view as they were, and
  otherwise it merges the decoded chunk.
\<close>

theorem C1_decoder_input:
  "onConversation_onDownloadProgress e c buf s =
     (case JSON_parse e (lastNewlineDelimited buf) of
        None \<Rightarrow> (c, s)
      | Some data \<Rightarrow> mergeChunk e lastIndex c data s)
   \<and> onRegenerate_onDownloadProgress e index c buf s =
     (case JSON_parse e (lastNewlineDelimited buf) of
        None \<Rightarrow> (c, s)
      | Some data \<Rightarrow> mergeChunk e (\<lambda>s. index) c data s)"
  by (simp add: onConversation_onDownloadProgress_def onRegenerate_onDownloadProgress_def
      onDownloadProgress_def responseChunk_spec)

text \<open>
  Claim C2. For a successfully decoded streaming chunk, the message at the streaming index
  (the last index for a send, \<open>index\<close> for a regenerate; taken to lie inside the transcript)
  is overwritten: its text is the accumulator \<open>lastText\<close> followed by the chunk's \<open>text\<close>
  field, the empty string when that field is absent or \<open>null\<close>, and its
  \<open>conversationOptions\<close> are the chunk's \<open>conversationId\<close> and \<open>id\<close>. The accumulator is
  a string unless a truncated chunk without a text has set it to \<open>undefined\<close> or \<open>null\<close>,
  which \<open>+\<close> turns into the strings "undefined" and "null". A later chunk replaces the text
  written by an earlier one: after two chunks the text is the accumulator left by the first
  handler call (the first chunk's text if that chunk continued a long reply, the old
  accumulator otherwise) followed by the second chunk's text.
\<close>

theorem C2_last_chunk_wins:
  assumes "JSON_parse e (responseChunk buf) = Some data"
  shows "(dataSources s \<noteq> [] \<longrightarrow>
            chat_text (last (dataSources (snd (onConversation_onDownloadProgress e c buf s)))) =
              (case lastText c of
                 Undefined \<Rightarrow> ascii ''undefined'' | Null \<Rightarrow> ascii ''null'' | Text l \<Rightarrow> l) @
              (case data_text data of Undefined \<Rightarrow> [] | Null \<Rightarrow> [] | Text t \<Rightarrow> t)
          \<and> conversationOptions
               (last (dataSources (snd (onConversation_onDownloadProgress e c buf s)))) =
              Some \<lparr>conversationId = data_conversationId data, parentMessageId = data_id data\<rparr>)
       \<and> (inRange (dataSources s) index \<longrightarrow>
            chat_text (dataSources (snd (onRegenerate_onDownloadProgress e index c buf s))
                         ! nat index) =
              (case lastText c of
                 Undefined \<Rightarrow> ascii ''undefined'' | Null \<Rightarrow> ascii ''null'' | Text l \<Rightarrow> l) @
              (case data_text data of Undefined \<Rightarrow> [] | Null \<Rightarrow> [] | Text t \<Rightarrow> t)
          \<and> conversationOptions
               (dataSources (snd (onRegenerate_onDownloadProgress e index c buf s)) ! nat index) =
              Some \<lparr>conversationId = data_conversationId data, parentMessageId = data_id data\<rparr>)
       \<and> (dataSources s \<noteq> [] \<and> JSON_parse e (responseChunk buf') = Some data' \<longrightarrow>
            chat_text (last (dataSources (snd
                (onConversation_onDownloadProgress e
                   (fst (onConversation_onDownloadProgress e c buf s)) buf'
                   (snd (onConversation_onDownloadProgress e c buf s)))))) =
              (case (if openLongReply e \<and>
                        data_finish_reason data = FinishReason (Some (ascii ''length''))
                     then data_text data else lastText c) of
                 Undefined \<Rightarrow> ascii ''undefined'' | Null \<Rightarrow> ascii ''null'' | Text l \<Rightarrow> l) @
              (case data_text data' of Undefined \<Rightarrow> [] | Null \<Rightarrow> [] | Text t \<Rightarrow> t))"
proof -
  let ?conv = "onConversation_onDownloadProgress e c buf s"
  have conv: "?conv = mergeChunk e lastIndex c data s"
    using assms by (simp add: onConversation_onDownloadProgress_def onDownloadProgress_decoded)
  have regen: "onRegenerate_onDownloadProgress e index c buf s =
                 mergeChunk e (\<lambda>s. index) c data s"
    using assms by (simp add: onRegenerate_onDownloadProgress_def onDownloadProgress_decoded)
  have one: "dataSources s \<noteq> [] \<longrightarrow>
      last (dataSources (snd ?conv)) = streamedChat c data (toLocaleString e (dates s))"
    unfolding conv by (simp add: mergeChunk_at_last)
  have two: "inRange (dataSources s) index \<longrightarrow>
      dataSources (snd (onRegenerate_onDownloadProgress e index c buf s)) ! nat index =
        streamedChat c data (toLocaleString e (dates s))"
    unfolding regen by (simp add: mergeChunk_at_index)
  have three: "dataSources s \<noteq> [] \<and> JSON_parse e (responseChunk buf') = Some data' \<longrightarrow>
      last (dataSources (snd (onConversation_onDownloadProgress e (fst ?conv) buf' (snd ?conv)))) =
        streamedChat (fst ?conv) data' (toLocaleString e (dates (snd ?conv)))"
  proof
    assume h: "dataSources s \<noteq> [] \<and> JSON_parse e (responseChunk buf') = Some data'"
    then have ne: "dataSources (snd ?conv) \<noteq> []"
      unfolding conv using mergeChunk_length [of e lastIndex c data s] by auto
    have "onConversation_onDownloadProgress e (fst ?conv) buf' (snd ?conv) =
            mergeChunk e lastIndex (fst ?conv) data' (snd ?conv)"
      using h by (simp add: onConversation_onDownloadProgress_def onDownloadProgress_decoded)
    then show "last (dataSources (snd (onConversation_onDownloadProgress e (fst ?conv) buf'
                  (snd ?conv)))) =
               streamedChat (fst ?conv) data' (toLocaleString e (dates (snd ?conv)))"
      using ne by (simp add: mergeChunk_at_last)
  qed
  have acc: "lastText (fst ?conv) =
      (if openLongReply e \<and> data_finish_reason data = FinishReason (Some (ascii ''length''))
       then data_text data else lastText c)"
    unfolding conv by (rule mergeChunk_lastText)
  show ?thesis
    using one two three acc by (simp add: streamedChat_fields)
qed

text \<open>
  Three runs of the handler after the send of "hello". With the long-reply feature on, the
  first chunk ("Hi", truncated) makes "Hi" the accumulator and the second chunk "Hi" gives
  the text "HiHi". With the feature off the accumulator stays empty and the second chunk
  gives "Hi": the first chunk's text is replaced, not extended. An accumulator that is
  \<open>null\<close> gives "nullHi".
\<close>

theorem C2_witness:
  "JSON_parse demo_env (responseChunk demo_buf) = Some demo_data
   \<and> JSON_parse demo_env_short (responseChunk demo_buf) = Some demo_data
   \<and> dataSources demo_streaming \<noteq> []
   \<and> inRange (dataSources demo_streaming) 1
   \<and> chat_text (last (dataSources
        (snd (onConversation_onDownloadProgress demo_env demo_closure demo_buf
                demo_streaming)))) = [72, 105]
   \<and> chat_text (last (dataSources (snd
        (onConversation_onDownloadProgress demo_env
           (fst (onConversation_onDownloadProgress demo_env demo_closure demo_buf
                   demo_streaming))
           demo_buf
           (snd (onConversation_onDownloadProgress demo_env demo_closure demo_buf
                   demo_streaming)))))) = [72, 105, 72, 105]
   \<and> chat_text (last (dataSources (snd
        (onConversation_onDownloadProgress demo_env_short
           (fst (onConversation_onDownloadProgress demo_env_short demo_closure demo_buf
                   demo_streaming))
           demo_buf
           (snd (onConversation_onDownloadProgress demo_env_short demo_closure demo_buf
                   demo_streaming)))))) = [72, 105]
   \<and> chat_text (dataSources
        (snd (onRegenerate_onDownloadProgress demo_env 1 (fst demo_continued) demo_buf
                demo_streaming)) ! 1) = [72, 105, 72, 105]
   \<and> chat_text (last (dataSources
        (snd (onConversation_onDownloadProgress demo_env demo_null_closure demo_buf
                demo_streaming)))) = [110, 117, 108, 108, 72, 105]
   \<and> conversationOptions (last (dataSources
        (snd (onConversation_onDownloadProgress demo_env demo_closure demo_buf
                demo_streaming)))) =
       Some \<lparr>conversationId = Some [99, 49], parentMessageId = Some [109, 49]\<rparr>"
proof -
  have h1: "JSON_parse demo_env (responseChunk demo_buf) = Some demo_data"
    by code_simp
  have h2: "JSON_parse demo_env_short (responseChunk demo_buf) = Some demo_data"
    by code_simp
  have h3: "dataSources demo_streaming \<noteq> []"
    by code_simp
  have h4: "inRange (dataSources demo_streaming) 1"
    by code_simp
  have v1: "(case lastText demo_closure of
               Undefined \<Rightarrow> ascii ''undefined'' | Null \<Rightarrow> ascii ''null'' | Text l \<Rightarrow> l) @
            (case data_text demo_data of Undefined \<Rightarrow> [] | Null \<Rightarrow> [] | Text t \<Rightarrow> t) =
            [72, 105]"
    by code_simp
  have v2: "(case (if openLongReply demo_env \<and>
                      data_finish_reason demo_data = FinishReason (Some (ascii ''length''))
                   then data_text demo_data else lastText demo_closure) of
               Undefined \<Rightarrow> ascii ''undefined'' | Null \<Rightarrow> ascii ''null'' | Text l \<Rightarrow> l) @
            (case data_text demo_data of Undefined \<Rightarrow> [] | Null \<Rightarrow> [] | Text t \<Rightarrow> t) =
            [72, 105, 72, 105]"
    by code_simp
  have v3: "(case (if openLongReply demo_env_short \<and>
                      data_finish_reason demo_data = FinishReason (Some (ascii ''length''))
                   then data_text demo_data else lastText demo_closure) of
               Undefined \<Rightarrow> ascii ''undefined'' | Null \<Rightarrow> ascii ''null'' | Text l \<Rightarrow> l) @
            (case data_text demo_data of Undefined \<Rightarrow> [] | Null \<Rightarrow> [] | Text t \<Rightarrow> t) =
            [72, 105]"
    by code_simp
  have v4: "(case lastText (fst demo_continued) of
               Undefined \<Rightarrow> ascii ''undefined'' | Null \<Rightarrow> ascii ''null'' | Text l \<Rightarrow> l) @
            (case data_text demo_data of Undefined \<Rightarrow> [] | Null \<Rightarrow> [] | Text t \<Rightarrow> t) =
            [72, 105, 72, 105]"
    by code_simp
  have v5: "(case lastText demo_null_closure of
               Undefined \<Rightarrow> ascii ''undefined'' | Null \<Rightarrow> ascii ''null'' | Text l \<Rightarrow> l) @
            (case data_text demo_data of Undefined \<Rightarrow> [] | Null \<Rightarrow> [] | Text t \<Rightarrow> t) =
            [110, 117, 108, 108, 72, 105]"
    by code_simp
  have v6: "Some \<lparr>conversationId = data_conversationId demo_data,
                  parentMessageId = data_id demo_data\<rparr> =
            Some \<lparr>conversationId = Some [99, 49], parentMessageId = Some [109, 49]\<rparr>"
    by code_simp
  note a = C2_last_chunk_wins [OF h1, where s = demo_streaming and c = demo_closure
      and index = 1 and buf' = demo_buf and data' = demo_data]
  note b = C2_last_chunk_wins [OF h2, where s = demo_streaming and c = demo_closure
      and index = 1 and buf' = demo_buf and data' = demo_data]
  note c = C2_last_chunk_wins [OF h1, where s = demo_streaming and c = "fst demo_continued"
      and index = 1 and buf' = demo_buf and data' = demo_data]
  note d = C2_last_chunk_wins [OF h1, where s = demo_streaming and c = demo_null_closure
      and index = 1 and buf' = demo_buf and data' = demo_data]
  have a1: "chat_text (last (dataSources
        (snd (onConversation_onDownloadProgress demo_env demo_closure demo_buf
                demo_streaming)))) = [72, 105]"
    using a h3 v1 by simp
  have a2: "chat_text (last (dataSources (snd
        (onConversation_onDownloadProgress demo_env
           (fst (onConversation_onDownloadProgress demo_env demo_closure demo_buf
                   demo_streaming))
           demo_buf
           (snd (onConversation_onDownloadProgress demo_env demo_closure demo_buf
                   demo_streaming)))))) = [72, 105, 72, 105]"
    using a h1 h3 v2 by simp
  have a3: "conversationOptions (last (dataSources
        (snd (onConversation_onDownloadProgress demo_env demo_closure demo_buf
                demo_streaming)))) =
       Some \<lparr>conversationId = Some [99, 49], parentMessageId = Some [109, 49]\<rparr>"
    using a h3 v6 by simp
  have b1: "chat_text (last (dataSources (snd
        (onConversation_onDownloadProgress demo_env_short
           (fst (onConversation_onDownloadProgress demo_env_short demo_closure demo_buf
                   demo_streaming))
           demo_buf
           (snd (onConversation_onDownloadProgress demo_env_short demo_closure demo_buf
                   demo_streaming)))))) = [72, 105]"
    using b h2 h3 v3 by simp
  have c1: "chat_text (dataSources
        (snd (onRegenerate_onDownloadProgress demo_env 1 (fst demo_continued) demo_buf
                demo_streaming)) ! 1) = [72, 105, 72, 105]"
    using c h4 v4 by simp
  have d1: "chat_text (last (dataSources
        (snd (onConversation_onDownloadProgress demo_env demo_null_closure demo_buf
                demo_streaming)))) = [110, 117, 108, 108, 72, 105]"
    using d h3 v5 by simp
  show ?thesis
    using h1 h2 h3 h4 a1 a2 a3 b1 c1 d1 by simp
qed

text \<open>
  Claim C3. For a decoded chunk: when the long-reply feature is enabled and the chunk's finish
  reason is "length", the handler sets the options' \<open>parentMessageId\<close> to the chunk's
  \<open>id\<close>, the accumulator \<open>lastText\<close> to the chunk's text and the prompt message to the
  empty string, and issues one more request with these values and the current controller's
  signal; when the feature is disabled or the finish reason is anything else, the closure is
  unchanged and no request is issued. For a send and for a regenerate alike.
\<close>

theorem C3_continuation_on_truncation:
  assumes "JSON_parse e (responseChunk buf) = Some data"
  shows "(openLongReply e \<and> data_finish_reason data = FinishReason (Some (ascii ''length'')) \<longrightarrow>
            fst (onConversation_onDownloadProgress e c buf s) =
              c\<lparr>options := (options c)\<lparr>parentMessageId := data_id data\<rparr>,
                lastText := data_text data, message := []\<rparr>
          \<and> requests (snd (onConversation_onDownloadProgress e c buf s)) =
              requests s @ [\<lparr>req_prompt = [],
                              req_options = (options c)\<lparr>parentMessageId := data_id data\<rparr>,
                              req_signal = controller s\<rparr>]
          \<and> fst (onRegenerate_onDownloadProgress e index c buf s) =
              c\<lparr>options := (options c)\<lparr>parentMessageId := data_id data\<rparr>,
                lastText := data_text data, message := []\<rparr>
          \<and> requests (snd (onRegenerate_onDownloadProgress e index c buf s)) =
              requests s @ [\<lparr>req_prompt = [],
                              req_options = (options c)\<lparr>parentMessageId := data_id data\<rparr>,
                              req_signal = controller s\<rparr>])
       \<and> (\<not> openLongReply e \<or> data_finish_reason data \<noteq> FinishReason (Some (ascii ''length'')) \<longrightarrow>
            fst (onConversation_onDownloadProgress e c buf s) = c
          \<and> requests (snd (onConversation_onDownloadProgress e c buf s)) = requests s
          \<and> fst (onRegenerate_onDownloadProgress e index c buf s) = c
          \<and> requests (snd (onRegenerate_onDownloadProgress e index c buf s)) = requests s)"
proof -
  have conv: "onConversation_onDownloadProgress e c buf s = mergeChunk e lastIndex c data s"
    using assms by (simp add: onConversation_onDownloadProgress_def onDownloadProgress_decoded)
  have regen: "onRegenerate_onDownloadProgress e index c buf s =
                 mergeChunk e (\<lambda>s. index) c data s"
    using assms by (simp add: onRegenerate_onDownloadProgress_def onDownloadProgress_decoded)
  show ?thesis
    unfolding conv regen
    by (simp add: mergeChunk_continue mergeChunk_stop)
qed

theorem C3_witness:
  "JSON_parse demo_env (responseChunk demo_buf) = Some demo_data
   \<and> openLongReply demo_env
   \<and> data_finish_reason demo_data = FinishReason (Some (ascii ''length''))
   \<and> fst (onConversation_onDownloadProgress demo_env demo_closure demo_buf demo_streaming) =
       \<lparr>message = [],
        options = \<lparr>conversationId = None, parentMessageId = Some (ascii ''m1'')\<rparr>,
        lastText = Text (ascii ''Hi'')\<rparr>
   \<and> requests (snd (onConversation_onDownloadProgress demo_env demo_closure demo_buf
                      demo_streaming)) =
       [\<lparr>req_prompt = ascii ''hello'', req_options = noOptions, req_signal = 1\<rparr>,
        \<lparr>req_prompt = [],
         req_options = \<lparr>conversationId = None, parentMessageId = Some (ascii ''m1'')\<rparr>,
         req_signal = 1\<rparr>]
   \<and> JSON_parse demo_env_short (responseChunk demo_buf) = Some demo_data
   \<and> \<not> openLongReply demo_env_short
   \<and> fst (onConversation_onDownloadProgress demo_env_short demo_closure demo_buf
             demo_streaming) = demo_closure
   \<and> requests (snd (onRegenerate_onDownloadProgress demo_env_short 1 demo_closure demo_buf
                      demo_streaming)) = requests demo_streaming"
proof -
  have h1: "JSON_parse demo_env (responseChunk demo_buf) = Some demo_data"
    by code_simp
  have h2: "openLongReply demo_env"
    by code_simp
  have h3: "data_finish_reason demo_data = FinishReason (Some (ascii ''length''))"
    by code_simp
  have h4: "JSON_parse demo_env_short (responseChunk demo_buf) = Some demo_data"
    by code_simp
  have h5: "\<not> openLongReply demo_env_short"
    by code_simp
  have v1: "demo_closure\<lparr>options := (options demo_closure)\<lparr>parentMessageId := data_id demo_data\<rparr>,
              lastText := data_text demo_data, message := []\<rparr> =
            \<lparr>message = [],
             options = \<lparr>conversationId = None, parentMessageId = Some (ascii ''m1'')\<rparr>,
             lastText = Text (ascii ''Hi'')\<rparr>"
    by code_simp
  have v2: "requests demo_streaming @
              [\<lparr>req_prompt = [],
                req_options = (options demo_closure)\<lparr>parentMessageId := data_id demo_data\<rparr>,
                req_signal = controller demo_streaming\<rparr>] =
            [\<lparr>req_prompt = ascii ''hello'', req_options = noOptions, req_signal = 1\<rparr>,
             \<lparr>req_prompt = [],
              req_options = \<lparr>conversationId = None, parentMessageId = Some (ascii ''m1'')\<rparr>,
              req_signal = 1\<rparr>]"
    by code_simp
  show ?thesis
    using C3_continuation_on_truncation [OF h1, of demo_closure demo_streaming 1]
      C3_continuation_on_truncation [OF h4, of demo_closure demo_streaming 1]
      h1 h2 h3 h4 h5 v1 v2
    by simp
qed

text \<open>
  Claim C4. When \<open>loading\<close> is true, \<open>handleStop\<close> aborts the current controller and clears
  the loading flag. When the awaited call fails with the message "canceled", the \<open>catch\<close>
  block of a send or of a regenerate only marks the pending message as no longer loading: the
  transcript keeps its length, every text and every error flag, no request is issued and the
  loading flag is cleared.
\<close>

theorem C4_cancellation_is_silent:
  "(loading s \<longrightarrow>
      handleStop s = s\<lparr>controllers := (controllers s)[controller s := True], loading := False\<rparr>)
   \<and> (error_message err = Some canceled \<longrightarrow>
        length (dataSources (onConversation_catch e c err s)) = length (dataSources s)
      \<and> map chat_text (dataSources (onConversation_catch e c err s)) =
          map chat_text (dataSources s)
      \<and> map chat_error (dataSources (onConversation_catch e c err s)) =
          map chat_error (dataSources s)
      \<and> (dataSources s \<noteq> [] \<longrightarrow>
          last (dataSources (onConversation_catch e c err s)) =
            (last (dataSources s))\<lparr>chat_loading := Some False\<rparr>)
      \<and> butlast (dataSources (onConversation_catch e c err s)) = butlast (dataSources s)
      \<and> requests (onConversation_catch e c err s) = requests s
      \<and> \<not> loading (onConversation_catch e c err s))
   \<and> (error_message err = Some canceled \<and> inRange (dataSources s) index \<longrightarrow>
        length (dataSources (onRegenerate_catch e index c err s)) = length (dataSources s)
      \<and> map chat_text (dataSources (onRegenerate_catch e index c err s)) =
          map chat_text (dataSources s)
      \<and> map chat_error (dataSources (onRegenerate_catch e index c err s)) =
          map chat_error (dataSources s)
      \<and> dataSources (onRegenerate_catch e index c err s) ! nat index =
          (dataSources s ! nat index)\<lparr>chat_loading := Some False\<rparr>
      \<and> requests (onRegenerate_catch e index c err s) = requests s
      \<and> \<not> loading (onRegenerate_catch e index c err s))"
proof -
  have stop: "loading s \<longrightarrow>
      handleStop s = s\<lparr>controllers := (controllers s)[controller s := True], loading := False\<rparr>"
    by (simp add: handleStop_loading)
  have last_eq: "dataSources s \<noteq> [] \<longrightarrow>
      last (updateChatSome (dataSources s) (lastIndex s) loadingFalse) =
        (last (dataSources s))\<lparr>chat_loading := Some False\<rparr>"
    by (simp add: lastIndex_def updateChatSome_last applyPatch_loadingFalse)
  have butlast_eq:
    "butlast (updateChatSome (dataSources s) (lastIndex s) loadingFalse) = butlast (dataSources s)"
    by (simp add: lastIndex_def updateChatSome_butlast)
  have conv: "error_message err = Some canceled \<longrightarrow>
      dataSources (onConversation_catch e c err s) =
        updateChatSome (dataSources s) (lastIndex s) loadingFalse"
    by (simp add: onConversation_catch_canceled)
  have regen: "error_message err = Some canceled \<longrightarrow>
      dataSources (onRegenerate_catch e index c err s) =
        updateChatSome (dataSources s) index loadingFalse"
    by (simp add: onRegenerate_catch_canceled)
  show ?thesis
    using stop last_eq butlast_eq conv regen
    by (simp add: onConversation_catch_frame onRegenerate_catch_frame updateChatSome_length
        updateChatSome_loadingFalse_text updateChatSome_nth applyPatch_loadingFalse)
qed

theorem C4_witness:
  "loading demo_streaming
   \<and> error_message demo_cancel = Some canceled
   \<and> dataSources demo_streaming \<noteq> []
   \<and> inRange (dataSources demo_streaming) 1
   \<and> controllers (handleStop demo_streaming) = [False, True]
   \<and> \<not> loading (handleStop demo_streaming)
   \<and> map chat_text (dataSources (onConversation_catch demo_env demo_closure demo_cancel
         demo_streaming)) = [ascii ''hello'', thinking]
   \<and> map chat_error (dataSources (onConversation_catch demo_env demo_closure demo_cancel
         demo_streaming)) = [False, False]
   \<and> chat_loading (last (dataSources (onConversation_catch demo_env demo_closure demo_cancel
         demo_streaming))) = Some False
   \<and> requests (onConversation_catch demo_env demo_closure demo_cancel demo_streaming) =
       requests demo_streaming
   \<and> chat_loading (dataSources (onRegenerate_catch demo_env 1 demo_closure demo_cancel
         demo_streaming) ! 1) = Some False
   \<and> canceled = [99, 97, 110, 99, 101, 108, 101, 100]"
proof -
  have h1: "loading demo_streaming" by code_simp
  have v4: "canceled = [99, 97, 110, 99, 101, 108, 101, 100]" by code_simp
  have h2: "error_message demo_cancel = Some canceled" by code_simp
  have h3: "dataSources demo_streaming \<noteq> []" by code_simp
  have h4: "inRange (dataSources demo_streaming) 1" by code_simp
  have v1: "controllers (demo_streaming\<lparr>controllers :=
              (controllers demo_streaming)[controller demo_streaming := True],
              loading := False\<rparr>) = [False, True]"
    by code_simp
  have v2: "map chat_text (dataSources demo_streaming) = [ascii ''hello'', thinking]"
    by code_simp
  have v3: "map chat_error (dataSources demo_streaming) = [False, False]"
    by code_simp
  show ?thesis
    using C4_cancellation_is_silent [where s = demo_streaming and err = demo_cancel
        and e = demo_env and c = demo_closure and index = 1]
      h1 h2 h3 h4 v1 v2 v3 v4
    by simp
qed

text \<open>
  What the \<open>catch\<close> blocks do with an error of the awaited call that is an object and whose
  message is not "canceled": in \<open>onConversation\<close>, when the streaming message (the last one)
  has a non-empty text, the error message is appended to that text in brackets on a new line,
  and otherwise the message is replaced by an entry whose text is the error message and whose
  error flag is true; in \<open>onRegenerate\<close> the message at \<open>index\<close> is replaced by such an
  entry. In every case the other messages are untouched, the loading flag is cleared and no
  request is issued.
\<close>

lemma awaited_error_rendered_inline:
  assumes "error_message err \<noteq> Some canceled" "err \<noteq> NoValue"
  shows "(dataSources s \<noteq> [] \<and> chat_text (last (dataSources s)) \<noteq> [] \<longrightarrow>
            last (dataSources (onConversation_catch e c err s)) =
              (last (dataSources s))
                \<lparr>chat_text := chat_text (last (dataSources s)) @ [newline] @ ascii ''['' @
                    (case error_message err of None \<Rightarrow> common_wrong e | Some m \<Rightarrow> m) @ ascii '']'',
                 chat_error := False, chat_loading := Some False\<rparr>)
       \<and> (dataSources s \<noteq> [] \<and> chat_text (last (dataSources s)) = [] \<longrightarrow>
            last (dataSources (onConversation_catch e c err s)) =
              \<lparr>dateTime = toLocaleString e (dates s),
               chat_text = (case error_message err of None \<Rightarrow> common_wrong e | Some m \<Rightarrow> m),
               inversion = False, chat_error = True, chat_loading = Some False,
               conversationOptions = None,
               requestOptions = \<lparr>ro_prompt = message c, ro_options = Some (options c)\<rparr>\<rparr>)
       \<and> length (dataSources (onConversation_catch e c err s)) = length (dataSources s)
       \<and> butlast (dataSources (onConversation_catch e c err s)) = butlast (dataSources s)
       \<and> \<not> loading (onConversation_catch e c err s)
       \<and> requests (onConversation_catch e c err s) = requests s
       \<and> (inRange (dataSources s) index \<longrightarrow>
            dataSources (onRegenerate_catch e index c err s) ! nat index =
              \<lparr>dateTime = toLocaleString e (dates s),
               chat_text = (case error_message err of None \<Rightarrow> common_wrong e | Some m \<Rightarrow> m),
               inversion = False, chat_error = True, chat_loading = Some False,
               conversationOptions = None,
               requestOptions = \<lparr>ro_prompt = message c, ro_options = Some (options c)\<rparr>\<rparr>
          \<and> length (dataSources (onRegenerate_catch e index c err s)) =
              length (dataSources s))
       \<and> \<not> loading (onRegenerate_catch e index c err s)
       \<and> requests (onRegenerate_catch e index c err s) = requests s"
proof -
  let ?msg = "case error_message err of None \<Rightarrow> common_wrong e | Some m \<Rightarrow> m"
  have a: "dataSources s \<noteq> [] \<and> chat_text (last (dataSources s)) \<noteq> [] \<longrightarrow>
      last (dataSources (onConversation_catch e c err s)) =
        (last (dataSources s))
          \<lparr>chat_text := chat_text (last (dataSources s)) @ [newline] @ ascii ''['' @ ?msg @ ascii '']'',
           chat_error := False, chat_loading := Some False\<rparr>"
    using assms
    by (simp add: onConversation_catch_append lastIndex_def updateChatSome_last applyPatch_def)
  have b: "dataSources s \<noteq> [] \<and> chat_text (last (dataSources s)) = [] \<longrightarrow>
      last (dataSources (onConversation_catch e c err s)) =
        errorChat c ?msg (toLocaleString e (dates s))"
    using assms by (simp add: onConversation_catch_replace lastIndex_def updateChat_last)
  have len: "length (dataSources (onConversation_catch e c err s)) = length (dataSources s)"
    by (rule onConversation_catch_length)
  have bl: "butlast (dataSources (onConversation_catch e c err s)) = butlast (dataSources s)"
    by (rule onConversation_catch_butlast)
  have r: "inRange (dataSources s) index \<longrightarrow>
      dataSources (onRegenerate_catch e index c err s) ! nat index =
        errorChat c ?msg (toLocaleString e (dates s))"
    using assms by (simp add: onRegenerate_catch_replace updateChat_nth)
  have rlen: "length (dataSources (onRegenerate_catch e index c err s)) = length (dataSources s)"
    using assms by (simp add: onRegenerate_catch_replace updateChat_length)
  show ?thesis
    using a b len bl r rlen
    by (simp add: onConversation_catch_frame onRegenerate_catch_frame errorChat_def)
qed

text \<open>
  Claim C5 says that every non-cancellation error raised by the chat API call is caught and
  rendered as an inline transcript entry. The code does so for the call it awaits, and
  misses two cases. With the long-reply feature on, the view sends "hello" and the first
  progress event delivers a truncated chunk "Hi", so the handler calls the API again; that
  second call then fails with the message "Network Error". Its promise was returned from the
  progress callback and not awaited, so no \<open>catch\<close> block runs: the transcript still reads
  "hello", "Hi", no error flag is set and the message stays marked as loading. Had the
  awaited call failed in the same state, the text would read "Hi", a newline and
  "[Network Error]". The same holds for a regenerate. Secondly, a rejection with \<open>null\<close> or
  \<open>undefined\<close> passes line 279 (\<open>error?.message\<close>) and throws at line 281 (\<open>error.message\<close>):
  nothing is rendered and the placeholder stays as it was.
\<close>

theorem C5_continuation_error_not_rendered:
  "openLongReply demo_env
   \<and> error_message demo_failure =
       Some [78, 101, 116, 119, 111, 114, 107, 32, 69, 114, 114, 111, 114]
   \<and> error_message demo_failure \<noteq> Some canceled
   \<and> loading (snd demo_continued)
   \<and> pending (snd demo_continued) = 2
   \<and> map chat_text (dataSources (snd demo_continued)) = [ascii ''hello'', ascii ''Hi'']
   \<and> map chat_text (dataSources (onConversation_rejected demo_env FromProgress
         (fst demo_continued) demo_failure (snd demo_continued))) =
       [ascii ''hello'', ascii ''Hi'']
   \<and> map chat_error (dataSources (onConversation_rejected demo_env FromProgress
         (fst demo_continued) demo_failure (snd demo_continued))) = [False, False]
   \<and> map chat_loading (dataSources (onConversation_rejected demo_env FromProgress
         (fst demo_continued) demo_failure (snd demo_continued))) = [None, Some True]
   \<and> loading (onConversation_rejected demo_env FromProgress
         (fst demo_continued) demo_failure (snd demo_continued))
   \<and> map chat_text (dataSources (onConversation_rejected demo_env Awaited
         (fst demo_continued) demo_failure (snd demo_continued))) =
       [ascii ''hello'', ascii ''Hi'' @ [newline] @ ascii ''[Network Error]'']
   \<and> map chat_text (dataSources (snd demo_regenerate_continued)) = [ascii ''hello'', ascii ''Hi'']
   \<and> map chat_text (dataSources (onRegenerate_rejected demo_env FromProgress 1
         (fst demo_regenerate_continued) demo_failure (snd demo_regenerate_continued))) =
       [ascii ''hello'', ascii ''Hi'']
   \<and> map chat_error (dataSources (onRegenerate_rejected demo_env FromProgress 1
         (fst demo_regenerate_continued) demo_failure (snd demo_regenerate_continued))) =
       [False, False]
   \<and> map chat_text (dataSources (onRegenerate_rejected demo_env Awaited 1
         (fst demo_regenerate_continued) demo_failure (snd demo_regenerate_continued))) =
       [ascii ''hello'', ascii ''Network Error'']
   \<and> map chat_text (dataSources (onConversation_rejected demo_env Awaited demo_closure NoValue
         demo_streaming)) = [ascii ''hello'', thinking]
   \<and> map chat_error (dataSources (onConversation_rejected demo_env Awaited demo_closure NoValue
         demo_streaming)) = [False, False]
   \<and> map chat_loading (dataSources (onConversation_rejected demo_env Awaited demo_closure
         NoValue demo_streaming)) = [None, Some True]"
  by code_simp

text \<open>
  Claim C6. When the prompt is empty or consists only of white space, \<open>handleSubmit\<close> and
  \<open>onConversation\<close> return at once and leave the whole view as it was (no message, no
  request, the same loading flag). The send button is disabled exactly when \<open>loading\<close> is
  true or the prompt is empty or consists only of white space.
\<close>

theorem C6_empty_prompt_is_noop:
  "(prompt s = [] \<or> (\<forall>u\<in>set (prompt s). isWhiteSpace u) \<longrightarrow>
      onConversation e s = (Returned, s) \<and> handleSubmit e s = (Returned, s))
   \<and> (buttonDisabled s \<longleftrightarrow>
        loading s \<or> prompt s = [] \<or> (\<forall>u\<in>set (prompt s). isWhiteSpace u))"
  by (auto simp add: onConversation_def handleSubmit_def buttonDisabled_def trim_empty_iff)

theorem C6_witness:
  "list_all isWhiteSpace (prompt demo_blank)
   \<and> onConversation demo_env demo_blank = (Returned, demo_blank)
   \<and> handleSubmit demo_env demo_blank = (Returned, demo_blank)
   \<and> buttonDisabled demo_blank
   \<and> \<not> buttonDisabled demo_view"
proof -
  have h1: "\<forall>u\<in>set (prompt demo_blank). isWhiteSpace u" by code_simp
  have h2: "\<not> (loading demo_view \<or> prompt demo_view = [] \<or>
               (\<forall>u\<in>set (prompt demo_view). isWhiteSpace u))"
    by code_simp
  show ?thesis
    using C6_empty_prompt_is_noop [where s = demo_blank and e = demo_env]
      C6_empty_prompt_is_noop [where s = demo_view and e = demo_env] h1 h2
    by (simp add: list_all_iff)
qed



text \<open>
  Claim C8. An invocation of \<open>onConversation\<close> that passes its guards appends exactly two
  messages before it calls the API (the part before the call issues no request, and the call
  does not touch the transcript): the user's message, with inversion true, error false and
  the submitted text, then a placeholder with inversion false, loading true and the
  three-character placeholder text. Every later call of the send's download-progress handler
  keeps the length of the transcript and changes no message but the last.
\<close>

theorem C8_two_messages_then_last_index:
  "(\<not> loading s \<and> prompt s \<noteq> [] \<and> trim (prompt s) \<noteq> [] \<longrightarrow>
      snd (onConversation e s) =
        fetchChatAPIProcess (fst (onConversation_setup e s)) (snd (onConversation_setup e s))
    \<and> requests (snd (onConversation_setup e s)) = requests s
    \<and> pending (snd (onConversation_setup e s)) = pending s
    \<and> dataSources (snd (onConversation_setup e s)) =
        dataSources s @
          [\<lparr>dateTime = toLocaleString e (dates s), chat_text = prompt s, inversion = True,
            chat_error = False, chat_loading = None, conversationOptions = None,
            requestOptions = \<lparr>ro_prompt = prompt s, ro_options = None\<rparr>\<rparr>,
           \<lparr>dateTime = toLocaleString e (Suc (dates s)), chat_text = thinking,
            inversion = False, chat_error = False, chat_loading = Some True,
            conversationOptions = None,
            requestOptions =
              \<lparr>ro_prompt = prompt s,
               ro_options = Some (options (fst (onConversation_setup e s)))\<rparr>\<rparr>]
    \<and> dataSources (snd (onConversation e s)) = dataSources (snd (onConversation_setup e s)))
   \<and> length (dataSources (snd (onConversation_onDownloadProgress e c buf s'))) =
       length (dataSources s')
   \<and> butlast (dataSources (snd (onConversation_onDownloadProgress e c buf s'))) =
       butlast (dataSources s')"
proof -
  have start: "\<not> loading s \<and> prompt s \<noteq> [] \<and> trim (prompt s) \<noteq> [] \<longrightarrow>
      snd (onConversation e s) =
        fetchChatAPIProcess (fst (onConversation_setup e s)) (snd (onConversation_setup e s))"
    by (simp add: onConversation_started)
  have ds: "dataSources (snd (onConversation_onDownloadProgress e c buf s')) =
      (case JSON_parse e (responseChunk buf) of
         None \<Rightarrow> dataSources s'
       | Some data \<Rightarrow> updateChat (dataSources s') (lastIndex s')
                       (streamedChat c data (toLocaleString e (dates s'))))"
    by (simp add: onConversation_onDownloadProgress_def onDownloadProgress_def
        mergeChunk_dataSources split: option.splits)
  have bl: "butlast (updateChat (dataSources s') (lastIndex s') m) = butlast (dataSources s')" for m
    by (simp add: lastIndex_def updateChat_butlast)
  show ?thesis
    using start
    by (simp add: setup_frame setup_dataSources fetchChatAPIProcess_fields ds bl updateChat_length
        split: option.splits)
qed

theorem C8_witness:
  "\<not> loading demo_view \<and> prompt demo_view \<noteq> [] \<and> trim (prompt demo_view) \<noteq> []
   \<and> requests (snd (onConversation_setup demo_env demo_view)) = []
   \<and> map chat_text (dataSources (snd (onConversation demo_env demo_view))) =
       [ascii ''hello'', thinking]
   \<and> map inversion (dataSources (snd (onConversation demo_env demo_view))) = [True, False]
   \<and> map chat_loading (dataSources (snd (onConversation demo_env demo_view))) =
       [None, Some True]
   \<and> butlast (dataSources (snd (onConversation_onDownloadProgress demo_env demo_closure
         demo_buf demo_streaming))) = butlast (dataSources demo_streaming)"
proof -
  have h1: "\<not> loading demo_view \<and> prompt demo_view \<noteq> [] \<and> trim (prompt demo_view) \<noteq> []"
    by code_simp
  note t = C8_two_messages_then_last_index [where s = demo_view and e = demo_env
      and c = demo_closure and buf = demo_buf and s' = demo_streaming]
  have r: "requests (snd (onConversation_setup demo_env demo_view)) = requests demo_view"
    using t h1 by blast
  have d: "dataSources (snd (onConversation demo_env demo_view)) =
           dataSources (snd (onConversation_setup demo_env demo_view))"
    using t h1 by blast
  have b: "butlast (dataSources (snd (onConversation_onDownloadProgress demo_env demo_closure
             demo_buf demo_streaming))) = butlast (dataSources demo_streaming)"
    using t by blast
  have v1: "requests demo_view = []" by code_simp
  have v2: "map chat_text (dataSources (snd (onConversation_setup demo_env demo_view))) =
              [ascii ''hello'', thinking]"
    "map inversion (dataSources (snd (onConversation_setup demo_env demo_view))) = [True, False]"
    "map chat_loading (dataSources (snd (onConversation_setup demo_env demo_view))) =
       [None, Some True]"
    by code_simp+
  show ?thesis
    unfolding d r v1 v2 b using h1 by simp
qed




text \<open>
  Claim C10. A send that passes its guards issues one request, with the submitted prompt.
  When \<open>usingContext\<close> is on and some earlier message is not an inversion and carries
  \<open>conversationOptions\<close>, the request's options are the \<open>conversationOptions\<close> of the last
  such message; when the toggle is off or there is no such message, they are empty.
\<close>

theorem C10_context_options:
  "\<not> loading s \<and> prompt s \<noteq> [] \<and> trim (prompt s) \<noteq> [] \<longrightarrow>
     butlast (requests (snd (onConversation e s))) = requests s
   \<and> req_prompt (last (requests (snd (onConversation e s)))) = prompt s
   \<and> (usingContext s \<and>
        filter (\<lambda>m. \<not> inversion m \<and> conversationOptions m \<noteq> None) (dataSources s) \<noteq> [] \<longrightarrow>
        conversationOptions
          (last (filter (\<lambda>m. \<not> inversion m \<and> conversationOptions m \<noteq> None) (dataSources s))) =
          Some (req_options (last (requests (snd (onConversation e s))))))
   \<and> (\<not> usingContext s \<or>
        filter (\<lambda>m. \<not> inversion m \<and> conversationOptions m \<noteq> None) (dataSources s) = [] \<longrightarrow>
        req_options (last (requests (snd (onConversation e s)))) = noOptions)"
proof -
  let ?prev = "filter (\<lambda>m. \<not> inversion m \<and> conversationOptions m \<noteq> None) (dataSources s)"
  have carried: "?prev \<noteq> [] \<Longrightarrow> \<exists>ctx. conversationOptions (last ?prev) = Some ctx"
  proof -
    assume "?prev \<noteq> []"
    then have "last ?prev \<in> set ?prev" by (rule last_in_set)
    then show ?thesis by auto
  qed
  show ?thesis
    using carried
    by (auto simp add: onConversation_started setup_frame setup_closure fetchChatAPIProcess_fields
        conversationList_def)
qed

theorem C10_witness:
  "\<not> loading demo_answered \<and> prompt demo_answered \<noteq> [] \<and> trim (prompt demo_answered) \<noteq> []
   \<and> usingContext demo_answered
   \<and> filter (\<lambda>m. \<not> inversion m \<and> conversationOptions m \<noteq> None) (dataSources demo_answered)
       \<noteq> []
   \<and> req_options (last (requests (snd (onConversation demo_env demo_answered)))) =
       \<lparr>conversationId = Some (ascii ''c1''), parentMessageId = Some (ascii ''m1'')\<rparr>
   \<and> \<not> loading demo_view \<and> prompt demo_view \<noteq> [] \<and> trim (prompt demo_view) \<noteq> []
   \<and> filter (\<lambda>m. \<not> inversion m \<and> conversationOptions m \<noteq> None) (dataSources demo_view) = []
   \<and> req_options (last (requests (snd (onConversation demo_env demo_view)))) = noOptions"
proof -
  have h1: "\<not> loading demo_answered \<and> prompt demo_answered \<noteq> [] \<and>
            trim (prompt demo_answered) \<noteq> []"
    by code_simp
  have h2: "usingContext demo_answered" by code_simp
  have h3: "filter (\<lambda>m. \<not> inversion m \<and> conversationOptions m \<noteq> None)
              (dataSources demo_answered) \<noteq> []"
    by code_simp
  have h4: "\<not> loading demo_view \<and> prompt demo_view \<noteq> [] \<and> trim (prompt demo_view) \<noteq> []"
    by code_simp
  have h5: "filter (\<lambda>m. \<not> inversion m \<and> conversationOptions m \<noteq> None)
              (dataSources demo_view) = []"
    by code_simp
  have v1: "conversationOptions (last (filter (\<lambda>m. \<not> inversion m \<and> conversationOptions m \<noteq> None)
              (dataSources demo_answered))) =
            Some \<lparr>conversationId = Some (ascii ''c1''), parentMessageId = Some (ascii ''m1'')\<rparr>"
    by code_simp
  show ?thesis
    using C10_context_options [where s = demo_answered and e = demo_env]
      C10_context_options [where s = demo_view and e = demo_env] h1 h2 h3 h4 h5 v1
    by simp
qed

end
